theory Spec2Isabelle
  imports Complex_Main "HOL-Library.Product_Lexorder"
begin

section \<open>Values crossing the HTTP and SQL boundaries\<close>

text \<open>
  The handlers of \<^verbatim>\<open>app.py\<close> read the fields of a JSON request body with
  \<^verbatim>\<open>request.json.get(...)\<close> and pass them, unchecked unless said otherwise, as
  parameters of SQL statements. A field can therefore hold any JSON value, and a missing
  field is Python's \<^verbatim>\<open>None\<close>. The body itself is a JSON object.

  Numbers are exact: a Python \<^verbatim>\<open>int\<close> is an \<open>int\<close>, a Python or JavaScript
  float is the rational it denotes. Rounding of IEEE doubles, NaN, the infinities and the
  64-bit range of SQLite integers are outside the model.
\<close>

datatype json =
    JNull
  | JBool bool
  | JInt int
  | JFloat rat
  | JStr string
  | JArr "json list"
  | JObj "(string \<times> json) list"

type_synonym body = "string \<rightharpoonup> json"

text \<open>\<^verbatim>\<open>request.json.get(k)\<close> and \<^verbatim>\<open>request.json.get(k, default)\<close>.\<close>

definition json_get :: "body \<Rightarrow> string \<Rightarrow> json" where
  "json_get b k = (case b k of None \<Rightarrow> JNull | Some v \<Rightarrow> v)"

definition json_get_default :: "body \<Rightarrow> string \<Rightarrow> json \<Rightarrow> json" where
  "json_get_default b k d = (case b k of None \<Rightarrow> d | Some v \<Rightarrow> v)"

text \<open>
  What the \<^verbatim>\<open>sqlite3\<close> module binds for a Python value: \<^verbatim>\<open>None\<close> is NULL,
  \<^verbatim>\<open>bool\<close> is a subclass of \<^verbatim>\<open>int\<close> and is bound as 0 or 1, a list or a dict
  cannot be bound and \<^verbatim>\<open>execute\<close> raises (not an \<^verbatim>\<open>IntegrityError\<close>).
\<close>

datatype bound = BNull | BInt int | BReal rat | BText string

fun bind_param :: "json \<Rightarrow> bound option" where
  "bind_param JNull = Some BNull"
| "bind_param (JBool b) = Some (BInt (if b then 1 else 0))"
| "bind_param (JInt i) = Some (BInt i)"
| "bind_param (JFloat r) = Some (BReal r)"
| "bind_param (JStr s) = Some (BText s)"
| "bind_param (JArr xs) = None"
| "bind_param (JObj kvs) = None"

text \<open>
  The conversions between numbers and text belong to SQLite and to Python, not to this
  repository; they are parameters of the model and every theorem holds for all of them.
  \<^item> \<open>int_to_text\<close>, \<open>real_to_text\<close>: how a column of TEXT affinity renders a number;
  \<^item> \<open>text_to_num\<close>: the value of a text that a column of NUMERIC affinity recognises
    as a well-formed number, \<open>None\<close> when it does not;
  \<^item> \<open>text_prefix_num\<close>: the number SQLite reads from a text in arithmetic and in
    \<^verbatim>\<open>SUM\<close>;
  \<^item> \<open>py_float\<close>: Python's \<^verbatim>\<open>float(str)\<close>, \<open>None\<close> when it raises;
  \<^item> \<open>py_date\<close>: the \<^verbatim>\<open>date\<close> converter that \<^verbatim>\<open>PARSE_DECLTYPES\<close> applies to a
    DATE column followed by \<^verbatim>\<open>str\<close>, \<open>None\<close> when it raises.
\<close>

datatype cell = Num rat | Txt string

record conv =
  int_to_text :: "int \<Rightarrow> string"
  real_to_text :: "rat \<Rightarrow> string"
  text_to_num :: "string \<Rightarrow> rat option"
  text_prefix_num :: "string \<Rightarrow> rat"
  py_float :: "string \<Rightarrow> rat option"
  py_date :: "cell \<Rightarrow> string option"

text \<open>
  Column affinity. VARCHAR and TEXT columns have TEXT affinity: a number is stored as
  text. DECIMAL, DATE and TIMESTAMP columns have NUMERIC affinity: a text that is a
  well-formed number is stored as that number, any other text stays text. \<open>None\<close> is
  NULL. The same conversion is applied to a parameter compared with such a column.
\<close>

fun text_affinity :: "conv \<Rightarrow> bound \<Rightarrow> string option" where
  "text_affinity cv BNull = None"
| "text_affinity cv (BInt i) = Some (int_to_text cv i)"
| "text_affinity cv (BReal r) = Some (real_to_text cv r)"
| "text_affinity cv (BText s) = Some s"

fun numeric_affinity :: "conv \<Rightarrow> bound \<Rightarrow> cell option" where
  "numeric_affinity cv BNull = None"
| "numeric_affinity cv (BInt i) = Some (Num (of_int i))"
| "numeric_affinity cv (BReal r) = Some (Num r)"
| "numeric_affinity cv (BText s) =
     (case text_to_num cv s of Some r \<Rightarrow> Some (Num r) | None \<Rightarrow> Some (Txt s))"

text \<open>The number a stored value counts as in \<^verbatim>\<open>SUM\<close> and in \<^verbatim>\<open>+\<close>.\<close>

fun cell_num :: "conv \<Rightarrow> cell \<Rightarrow> rat" where
  "cell_num cv (Num r) = r"
| "cell_num cv (Txt s) = text_prefix_num cv s"

fun bound_num :: "conv \<Rightarrow> bound \<Rightarrow> rat" where
  "bound_num cv BNull = 0"
| "bound_num cv (BInt i) = of_int i"
| "bound_num cv (BReal r) = r"
| "bound_num cv (BText s) = text_prefix_num cv s"

text \<open>SQL \<^verbatim>\<open>current_amount + ?\<close>: NULL when either operand is NULL.\<close>

fun sql_add :: "conv \<Rightarrow> cell option \<Rightarrow> bound \<Rightarrow> cell option" where
  "sql_add cv None v = None"
| "sql_add cv (Some c) BNull = None"
| "sql_add cv (Some c) v = Some (Num (cell_num cv c + bound_num cv v))"

text \<open>Python's \<^verbatim>\<open>float(row['amount'])\<close> on a stored value; \<open>None\<close> when it raises.\<close>

fun float_of_cell :: "conv \<Rightarrow> cell \<Rightarrow> rat option" where
  "float_of_cell cv (Num r) = Some r"
| "float_of_cell cv (Txt s) = py_float cv s"

section \<open>Time\<close>

text \<open>
  A timestamp is \<open>(year, month, day, hour, minute, second)\<close>. SQLite stores
  \<^verbatim>\<open>CURRENT_TIMESTAMP\<close> as the text \<^verbatim>\<open>YYYY-MM-DD HH:MM:SS\<close> and compares such
  texts byte by byte, which is the lexicographic order of the tuples. A month key
  \<^verbatim>\<open>strftime('%Y-%m')\<close> is \<open>(year, month)\<close>.

  \<^verbatim>\<open>datetime.now()\<close> is local time and \<^verbatim>\<open>CURRENT_TIMESTAMP\<close> is UTC, so a request
  sees two clocks. Each is read once per request in the model.
\<close>

type_synonym month_key = "nat \<times> nat"
type_synonym date = "nat \<times> nat \<times> nat"
type_synonym datetime = "nat \<times> nat \<times> nat \<times> nat \<times> nat \<times> nat"

record clock =
  local_now :: datetime
  utc_now :: datetime

fun month_of :: "datetime \<Rightarrow> month_key" where
  "month_of (y, m, d, hh, mm, ss) = (y, m)"

fun date_of :: "datetime \<Rightarrow> date" where
  "date_of (y, m, d, hh, mm, ss) = (y, m, d)"

fun day_of :: "datetime \<Rightarrow> nat" where
  "day_of (y, m, d, hh, mm, ss) = d"

text \<open>\<^verbatim>\<open>datetime.now().replace(day=1, hour=0, minute=0, second=0, microsecond=0)\<close>\<close>

fun month_start :: "datetime \<Rightarrow> datetime" where
  "month_start (y, m, d, hh, mm, ss) = (y, m, 1, 0, 0, 0)"

definition is_leap :: "nat \<Rightarrow> bool" where
  "is_leap y = (y mod 4 = 0 \<and> (y mod 100 \<noteq> 0 \<or> y mod 400 = 0))"

definition days_in_month :: "nat \<Rightarrow> nat \<Rightarrow> nat" where
  "days_in_month y m =
     (if m = 2 then (if is_leap y then 29 else 28)
      else if m = 4 \<or> m = 6 \<or> m = 9 \<or> m = 11 then 30 else 31)"

text \<open>
  \<^verbatim>\<open>datetime.now() - timedelta(days=n)\<close> is the date \<open>n\<close> days earlier in the
  proleptic Gregorian calendar; Python raises \<^verbatim>\<open>OverflowError\<close> below year 1.
\<close>

fun prev_day :: "date \<Rightarrow> date option" where
  "prev_day (y, m, d) =
     (if 1 < d then Some (y, m, d - 1)
      else if 1 < m then Some (y, m - 1, days_in_month y (m - 1))
      else if 1 < y then Some (y - 1, 12, 31)
      else None)"

fun minus_days :: "nat \<Rightarrow> date \<Rightarrow> date option" where
  "minus_days 0 d = Some d"
| "minus_days (Suc n) d = (case prev_day d of None \<Rightarrow> None | Some d' \<Rightarrow> minus_days n d')"

text \<open>\<^verbatim>\<open>(datetime.now() - timedelta(days=180)).strftime('%Y-%m-01')\<close>\<close>

definition six_months_ago :: "datetime \<Rightarrow> date option" where
  "six_months_ago now =
     (case minus_days 180 (date_of now) of
        None \<Rightarrow> None
      | Some (y, m, d) \<Rightarrow> Some (y, m, 1))"

section \<open>The store\<close>

text \<open>
  One list of rows per table of \<^verbatim>\<open>init_db\<close>, in insertion order. The
  \<^verbatim>\<open>id\<close> columns are never read by a data handler and are left out, as is the
  \<^verbatim>\<open>users\<close> table, which only \<^verbatim>\<open>login\<close> and \<^verbatim>\<open>register\<close> touch. A column
  declared NOT NULL holds a value, a nullable one an option. \<^verbatim>\<open>user_id\<close> is
  nullable in every table.
\<close>

record income_row =
  i_user :: "nat option"
  i_amount :: cell
  i_month :: month_key
  i_created :: datetime

record budget_row =
  b_user :: "nat option"
  b_category :: string
  b_amount :: cell
  b_month :: month_key
  b_created :: datetime

record expense_row =
  e_user :: "nat option"
  e_category :: string
  e_amount :: cell
  e_description :: "string option"
  e_timestamp :: datetime

record goal_row =
  g_user :: "nat option"
  g_name :: string
  g_target :: cell
  g_current :: "cell option"
  g_deadline :: cell
  g_created :: datetime

text \<open>
  The alert text is
  \<^verbatim>\<open>f"Overspending alert! You've exceeded your '{category}' budget by ...{overspent_amount:.2f}"\<close>;
  the model keeps its two arguments.
\<close>

datatype message = OverspendingAlert json rat

record notification_row =
  n_user :: "nat option"
  n_message :: message
  n_type :: string
  n_is_read :: bool
  n_created :: datetime

record db =
  income :: "income_row list"
  budgets :: "budget_row list"
  expenses :: "expense_row list"
  goals :: "goal_row list"
  notifications :: "notification_row list"

definition empty_db :: db where
  "empty_db = \<lparr>income = [], budgets = [], expenses = [], goals = [], notifications = []\<rparr>"

text \<open>
  \<^verbatim>\<open>user_id = ?\<close> in a WHERE clause and in a UNIQUE constraint: NULL equals nothing,
  not even NULL.
\<close>

definition user_eq :: "nat option \<Rightarrow> nat option \<Rightarrow> bool" where
  "user_eq a b = (a \<noteq> None \<and> a = b)"

text \<open>
  \<^verbatim>\<open>INSERT ... ON CONFLICT(key) DO UPDATE SET ...\<close>: when a row holds the key it is
  updated in place, otherwise the new row is appended.
\<close>

definition upsert :: "('r \<Rightarrow> bool) \<Rightarrow> ('r \<Rightarrow> 'r) \<Rightarrow> 'r \<Rightarrow> 'r list \<Rightarrow> 'r list" where
  "upsert conflicts upd new rows =
     (if list_ex conflicts rows then map (\<lambda>r. if conflicts r then upd r else r) rows
      else rows @ [new])"

section \<open>Session gate\<close>

text \<open>
  \<^verbatim>\<open>login\<close> sets \<^verbatim>\<open>session['logged_in']\<close> and \<^verbatim>\<open>session['user_id']\<close> together and
  \<^verbatim>\<open>logout\<close> clears the session. \<^verbatim>\<open>check_session\<close> looks at \<^verbatim>\<open>logged_in\<close> only.
\<close>

record session =
  logged_in :: bool
  user_id :: "nat option"

datatype error =
    NotAuthorized
  | InvalidAmount
  | GoalExists json
  | InternalServerError

definition check_session :: "session \<Rightarrow> error option" where
  "check_session s = (if \<not> logged_in s then Some NotAuthorized else None)"

section \<open>SQL statements of the handlers\<close>

text \<open>
  Each statement takes the Python values the handler passes and returns the new table, or
  the exception \<^verbatim>\<open>execute\<close> raises: \<open>BindingError\<close> for a parameter that cannot be
  bound (\<^verbatim>\<open>sqlite3.InterfaceError\<close> or \<^verbatim>\<open>sqlite3.ProgrammingError\<close>, by Python
  version), \<open>IntegrityError\<close> for a violated NOT NULL or UNIQUE constraint. A failed
  statement changes nothing.
\<close>

datatype exn = IntegrityError | BindingError

text \<open>
  \<^verbatim>\<open>INSERT INTO income (user_id, amount, month_year, created_at) VALUES (?, ?, ?, CURRENT_TIMESTAMP)
  ON CONFLICT(user_id, month_year) DO UPDATE SET amount = excluded.amount, created_at = CURRENT_TIMESTAMP\<close>
\<close>

definition upsert_income ::
  "conv \<Rightarrow> clock \<Rightarrow> nat option \<Rightarrow> json \<Rightarrow> month_key \<Rightarrow> income_row list \<Rightarrow> exn + income_row list" where
  "upsert_income cv clk uid amount current_month rows =
     (case bind_param amount of
        None \<Rightarrow> Inl BindingError
      | Some v \<Rightarrow>
          (case numeric_affinity cv v of
             None \<Rightarrow> Inl IntegrityError
           | Some a \<Rightarrow>
               Inr (upsert (\<lambda>r. user_eq (i_user r) uid \<and> i_month r = current_month)
                      (\<lambda>r. r\<lparr>i_amount := a, i_created := utc_now clk\<rparr>)
                      \<lparr>i_user = uid, i_amount = a, i_month = current_month,
                        i_created = utc_now clk\<rparr>
                      rows)))"

text \<open>
  \<^verbatim>\<open>INSERT INTO budgets (user_id, category, amount, month_year) VALUES (?, ?, ?, ?)
  ON CONFLICT(user_id, category, month_year) DO UPDATE SET amount = excluded.amount\<close>
\<close>

definition upsert_budget ::
  "conv \<Rightarrow> clock \<Rightarrow> nat option \<Rightarrow> json \<Rightarrow> json \<Rightarrow> month_key \<Rightarrow> budget_row list
     \<Rightarrow> exn + budget_row list" where
  "upsert_budget cv clk uid category amount current_month rows =
     (case bind_param category of
        None \<Rightarrow> Inl BindingError
      | Some cb \<Rightarrow>
          (case bind_param amount of
             None \<Rightarrow> Inl BindingError
           | Some ab \<Rightarrow>
               (case text_affinity cv cb of
                  None \<Rightarrow> Inl IntegrityError
                | Some c \<Rightarrow>
                    (case numeric_affinity cv ab of
                       None \<Rightarrow> Inl IntegrityError
                     | Some a \<Rightarrow>
                         Inr (upsert
                                (\<lambda>r. user_eq (b_user r) uid \<and> b_category r = c
                                      \<and> b_month r = current_month)
                                (\<lambda>r. r\<lparr>b_amount := a\<rparr>)
                                \<lparr>b_user = uid, b_category = c, b_amount = a,
                                  b_month = current_month, b_created = utc_now clk\<rparr>
                                rows)))))"

text \<open>The WHERE clause \<^verbatim>\<open>user_id = ? AND category = ? AND month_year = ?\<close> on budgets.\<close>

definition budget_matches :: "nat option \<Rightarrow> string option \<Rightarrow> month_key \<Rightarrow> budget_row \<Rightarrow> bool" where
  "budget_matches uid c m r = (user_eq (b_user r) uid \<and> c = Some (b_category r) \<and> b_month r = m)"

text \<open>\<^verbatim>\<open>DELETE FROM budgets WHERE user_id = ? AND category = ? AND month_year = ?\<close>\<close>

definition delete_budget_rows ::
  "conv \<Rightarrow> nat option \<Rightarrow> json \<Rightarrow> month_key \<Rightarrow> budget_row list \<Rightarrow> exn + budget_row list" where
  "delete_budget_rows cv uid category current_month rows =
     (case bind_param category of
        None \<Rightarrow> Inl BindingError
      | Some cb \<Rightarrow>
          Inr (filter (\<lambda>r. \<not> budget_matches uid (text_affinity cv cb) current_month r) rows))"

text \<open>
  \<^verbatim>\<open>INSERT INTO expenses (user_id, category, amount, description) VALUES (?, ?, ?, ?)\<close>;
  the timestamp column defaults to \<^verbatim>\<open>CURRENT_TIMESTAMP\<close>.
\<close>

definition insert_expense ::
  "conv \<Rightarrow> clock \<Rightarrow> nat option \<Rightarrow> json \<Rightarrow> json \<Rightarrow> json \<Rightarrow> expense_row list
     \<Rightarrow> exn + expense_row list" where
  "insert_expense cv clk uid category amount description rows =
     (case bind_param category of
        None \<Rightarrow> Inl BindingError
      | Some cb \<Rightarrow>
          (case bind_param amount of
             None \<Rightarrow> Inl BindingError
           | Some ab \<Rightarrow>
               (case bind_param description of
                  None \<Rightarrow> Inl BindingError
                | Some db \<Rightarrow>
                    (case text_affinity cv cb of
                       None \<Rightarrow> Inl IntegrityError
                     | Some c \<Rightarrow>
                         (case numeric_affinity cv ab of
                            None \<Rightarrow> Inl IntegrityError
                          | Some a \<Rightarrow>
                              Inr (rows @
                                [\<lparr>e_user = uid, e_category = c, e_amount = a,
                                  e_description = text_affinity cv db,
                                  e_timestamp = utc_now clk\<rparr>]))))))"

text \<open>
  \<^verbatim>\<open>INSERT INTO goals (user_id, name, target_amount, deadline) VALUES (?, ?, ?, ?)\<close>
  under \<^verbatim>\<open>UNIQUE(user_id, name)\<close>; \<^verbatim>\<open>current_amount\<close> defaults to 0.
\<close>

definition insert_goal ::
  "conv \<Rightarrow> clock \<Rightarrow> nat option \<Rightarrow> json \<Rightarrow> json \<Rightarrow> json \<Rightarrow> goal_row list \<Rightarrow> exn + goal_row list" where
  "insert_goal cv clk uid name target_amount deadline rows =
     (case bind_param name of
        None \<Rightarrow> Inl BindingError
      | Some nb \<Rightarrow>
          (case bind_param target_amount of
             None \<Rightarrow> Inl BindingError
           | Some tb \<Rightarrow>
               (case bind_param deadline of
                  None \<Rightarrow> Inl BindingError
                | Some db \<Rightarrow>
                    (case text_affinity cv nb of
                       None \<Rightarrow> Inl IntegrityError
                     | Some n \<Rightarrow>
                         (case numeric_affinity cv tb of
                            None \<Rightarrow> Inl IntegrityError
                          | Some t \<Rightarrow>
                              (case numeric_affinity cv db of
                                 None \<Rightarrow> Inl IntegrityError
                               | Some dl \<Rightarrow>
                                   if list_ex (\<lambda>r. user_eq (g_user r) uid \<and> g_name r = n) rows
                                   then Inl IntegrityError
                                   else Inr (rows @
                                     [\<lparr>g_user = uid, g_name = n, g_target = t,
                                       g_current = Some (Num 0), g_deadline = dl,
                                       g_created = utc_now clk\<rparr>])))))))"

text \<open>The WHERE clause \<^verbatim>\<open>user_id = ? AND name = ?\<close> on goals.\<close>

definition goal_matches :: "nat option \<Rightarrow> string option \<Rightarrow> goal_row \<Rightarrow> bool" where
  "goal_matches uid n r = (user_eq (g_user r) uid \<and> n = Some (g_name r))"

text \<open>\<^verbatim>\<open>DELETE FROM goals WHERE user_id = ? AND name = ?\<close>\<close>

definition delete_goal_rows ::
  "conv \<Rightarrow> nat option \<Rightarrow> json \<Rightarrow> goal_row list \<Rightarrow> exn + goal_row list" where
  "delete_goal_rows cv uid name rows =
     (case bind_param name of
        None \<Rightarrow> Inl BindingError
      | Some nb \<Rightarrow> Inr (filter (\<lambda>r. \<not> goal_matches uid (text_affinity cv nb) r) rows))"

text \<open>
  \<^verbatim>\<open>UPDATE goals SET current_amount = current_amount + ? WHERE user_id = ? AND name = ?\<close>
\<close>

definition update_goal_saving ::
  "conv \<Rightarrow> json \<Rightarrow> nat option \<Rightarrow> json \<Rightarrow> goal_row list \<Rightarrow> exn + goal_row list" where
  "update_goal_saving cv amount uid goal_name rows =
     (case bind_param amount of
        None \<Rightarrow> Inl BindingError
      | Some ab \<Rightarrow>
          (case bind_param goal_name of
             None \<Rightarrow> Inl BindingError
           | Some nb \<Rightarrow>
               Inr (map (\<lambda>r. if goal_matches uid (text_affinity cv nb) r
                              then r\<lparr>g_current := sql_add cv (g_current r) ab\<rparr> else r)
                      rows)))"

section \<open>Overspend check and trend analysis\<close>

text \<open>
  \<^verbatim>\<open>SELECT SUM(amount) as total FROM expenses WHERE user_id = ? AND category = ? AND timestamp >= ?\<close>
  followed by \<^verbatim>\<open>total_spent_row['total'] or 0\<close>: the sum over no row is NULL and
  becomes 0.
\<close>

definition total_spent ::
  "conv \<Rightarrow> nat option \<Rightarrow> string option \<Rightarrow> datetime \<Rightarrow> expense_row list \<Rightarrow> rat" where
  "total_spent cv uid c since rows =
     sum_list (map (\<lambda>e. cell_num cv (e_amount e))
       (filter (\<lambda>e. user_eq (e_user e) uid \<and> c = Some (e_category e) \<and> since \<le> e_timestamp e)
          rows))"

text \<open>
  \<^verbatim>\<open>check_overspending(user_id, category)\<close>. \<open>None\<close> is an exception (a parameter
  that cannot be bound, or \<^verbatim>\<open>float\<close> raising on the budget amount); the store is then
  as it was before the call.
\<close>

definition check_overspending :: "conv \<Rightarrow> clock \<Rightarrow> nat option \<Rightarrow> json \<Rightarrow> db \<Rightarrow> db option" where
  "check_overspending cv clk uid category d =
     (case bind_param category of
        None \<Rightarrow> None
      | Some cb \<Rightarrow>
          (let c = text_affinity cv cb;
               current_month = month_of (local_now clk)
           in case find (budget_matches uid c current_month) (budgets d) of
                None \<Rightarrow> Some d
              | Some budget \<Rightarrow>
                  (let total = total_spent cv uid c (month_start (local_now clk)) (expenses d)
                   in case float_of_cell cv (b_amount budget) of
                        None \<Rightarrow> None
                      | Some budget_amount \<Rightarrow>
                          if total > budget_amount
                          then Some (d\<lparr>notifications := notifications d @
                                 [\<lparr>n_user = uid,
                                   n_message = OverspendingAlert category (total - budget_amount),
                                   n_type = ''danger'', n_is_read = False,
                                   n_created = utc_now clk\<rparr>]\<rparr>)
                          else Some d)))"

text \<open>
  \<^verbatim>\<open>generate_trend_analysis(user_id)\<close>:
  \<^verbatim>\<open>SELECT strftime('%Y-%m', timestamp) as month, SUM(amount) as total_expenses FROM expenses
  WHERE user_id = ? AND timestamp >= ? GROUP BY month ORDER BY month\<close>.
  The parameter is the ten-character text \<^verbatim>\<open>YYYY-MM-01\<close>; a stored timestamp is at
  least that text exactly when its date is at least that date.
\<close>

record trends =
  labels :: "month_key list"
  trend_expenses :: "rat list"

definition trend_rows :: "nat option \<Rightarrow> date \<Rightarrow> expense_row list \<Rightarrow> expense_row list" where
  "trend_rows uid since rows =
     filter (\<lambda>e. user_eq (e_user e) uid \<and> since \<le> date_of (e_timestamp e)) rows"

definition month_total :: "conv \<Rightarrow> month_key \<Rightarrow> expense_row list \<Rightarrow> rat" where
  "month_total cv k rows =
     sum_list (map (\<lambda>e. cell_num cv (e_amount e))
       (filter (\<lambda>e. month_of (e_timestamp e) = k) rows))"

definition generate_trend_analysis :: "conv \<Rightarrow> clock \<Rightarrow> nat option \<Rightarrow> db \<Rightarrow> trends option" where
  "generate_trend_analysis cv clk uid d =
     (case six_months_ago (local_now clk) of
        None \<Rightarrow> None
      | Some since \<Rightarrow>
          (let rows = trend_rows uid since (expenses d);
               months = sort (remdups (map (\<lambda>e. month_of (e_timestamp e)) rows))
           in Some \<lparr>labels = months,
                     trend_expenses = map (\<lambda>k. month_total cv k rows) months\<rparr>))"

section \<open>Read model\<close>

text \<open>
  \<^verbatim>\<open>ORDER BY ... DESC\<close>. SQL leaves the order of rows with equal keys open; the model
  puts the row inserted later first.
\<close>

definition order_desc :: "('r \<Rightarrow> datetime) \<Rightarrow> 'r list \<Rightarrow> 'r list" where
  "order_desc key rows = rev (sort_key key rows)"

record user_data =
  ud_income :: "rat \<times> datetime option"
  ud_budgets :: "string \<rightharpoonup> rat"
  ud_expenses :: "(string \<times> rat \<times> string \<times> datetime) list"
  ud_goals :: "string \<rightharpoonup> rat \<times> rat \<times> string"
  ud_notifications :: "(message \<times> string \<times> bool \<times> datetime) list"

text \<open>A dict comprehension: a later pair with the same key replaces an earlier one.\<close>

definition py_dict :: "('k \<times> 'v) list \<Rightarrow> ('k \<rightharpoonup> 'v)" where
  "py_dict kvs = map_of (rev kvs)"

definition income_view :: "conv \<Rightarrow> income_row option \<Rightarrow> (rat \<times> datetime option) option" where
  "income_view cv row =
     (case row of
        None \<Rightarrow> Some (0, None)
      | Some r \<Rightarrow> map_option (\<lambda>a. (a, Some (i_created r))) (float_of_cell cv (i_amount r)))"

definition budget_view :: "conv \<Rightarrow> budget_row \<Rightarrow> (string \<times> rat) option" where
  "budget_view cv r = map_option (\<lambda>a. (b_category r, a)) (float_of_cell cv (b_amount r))"

definition expense_view :: "conv \<Rightarrow> expense_row \<Rightarrow> (string \<times> rat \<times> string \<times> datetime) option" where
  "expense_view cv r =
     map_option
       (\<lambda>a. (e_category r, a, (case e_description r of None \<Rightarrow> [] | Some t \<Rightarrow> t), e_timestamp r))
       (float_of_cell cv (e_amount r))"

text \<open>
  \<^verbatim>\<open>float(g['current_amount'])\<close> raises on NULL, and the DATE converter may raise
  on the deadline.
\<close>

definition goal_view :: "conv \<Rightarrow> goal_row \<Rightarrow> (string \<times> rat \<times> rat \<times> string) option" where
  "goal_view cv r =
     (case float_of_cell cv (g_target r) of
        None \<Rightarrow> None
      | Some t \<Rightarrow>
          (case g_current r of
             None \<Rightarrow> None
           | Some c \<Rightarrow>
               (case float_of_cell cv c of
                  None \<Rightarrow> None
                | Some cur \<Rightarrow>
                    (case py_date cv (g_deadline r) of
                       None \<Rightarrow> None
                     | Some dl \<Rightarrow> Some (g_name r, t, cur, dl)))))"

definition notification_view :: "notification_row \<Rightarrow> message \<times> string \<times> bool \<times> datetime" where
  "notification_view r = (n_message r, n_type r, n_is_read r, n_created r)"

text \<open>\<^verbatim>\<open>load_user_data(user_id)\<close>; \<open>None\<close> when a conversion raises.\<close>

definition load_user_data :: "conv \<Rightarrow> clock \<Rightarrow> nat option \<Rightarrow> db \<Rightarrow> user_data option" where
  "load_user_data cv clk uid d =
     (let current_month = month_of (local_now clk);
          income_r = find (\<lambda>r. user_eq (i_user r) uid \<and> i_month r = current_month) (income d);
          budgets_r = filter (\<lambda>r. user_eq (b_user r) uid \<and> b_month r = current_month) (budgets d);
          expenses_r = order_desc e_timestamp (filter (\<lambda>r. user_eq (e_user r) uid) (expenses d));
          goals_r = order_desc g_created (filter (\<lambda>r. user_eq (g_user r) uid) (goals d));
          notifications_r =
            take 10 (order_desc n_created
              (filter (\<lambda>r. user_eq (n_user r) uid \<and> \<not> n_is_read r) (notifications d)))
      in case income_view cv income_r of
           None \<Rightarrow> None
         | Some i \<Rightarrow>
             (case those (map (budget_view cv) budgets_r) of
                None \<Rightarrow> None
              | Some bs \<Rightarrow>
                  (case those (map (expense_view cv) expenses_r) of
                     None \<Rightarrow> None
                   | Some es \<Rightarrow>
                       (case those (map (goal_view cv) goals_r) of
                          None \<Rightarrow> None
                        | Some gs \<Rightarrow>
                            Some \<lparr>ud_income = i, ud_budgets = py_dict bs, ud_expenses = es,
                                  ud_goals = py_dict gs,
                                  ud_notifications = map notification_view notifications_r\<rparr>))))"

section \<open>Request handlers\<close>

text \<open>
  A mutating handler returns its response and the store it leaves; a reading handler
  returns its response. \<open>InternalServerError\<close> is the response to an exception no
  handler catches.
\<close>

datatype ack = Success

definition get_data :: "conv \<Rightarrow> clock \<Rightarrow> session \<Rightarrow> db \<Rightarrow> error + user_data" where
  "get_data cv clk s d =
     (case check_session s of
        Some e \<Rightarrow> Inl e
      | None \<Rightarrow>
          (case load_user_data cv clk (user_id s) d of
             None \<Rightarrow> Inl InternalServerError
           | Some u \<Rightarrow> Inr u))"

text \<open>\<^verbatim>\<open>isinstance(amount, (int, float))\<close> and the number it then is.\<close>

fun py_number :: "json \<Rightarrow> rat option" where
  "py_number (JBool b) = Some (if b then 1 else 0)"
| "py_number (JInt i) = Some (of_int i)"
| "py_number (JFloat r) = Some r"
| "py_number v = None"

definition set_income :: "conv \<Rightarrow> clock \<Rightarrow> session \<Rightarrow> body \<Rightarrow> db \<Rightarrow> (error + ack) \<times> db" where
  "set_income cv clk s b d =
     (case check_session s of
        Some e \<Rightarrow> (Inl e, d)
      | None \<Rightarrow>
          (let amount = json_get b ''amount'' in
           if (case py_number amount of None \<Rightarrow> True | Some r \<Rightarrow> r < 0)
           then (Inl InvalidAmount, d)
           else
             (let current_month = month_of (local_now clk) in
              case upsert_income cv clk (user_id s) amount current_month (income d) of
                Inl x \<Rightarrow> (Inl InternalServerError, d)
              | Inr rows \<Rightarrow> (Inr Success, d\<lparr>income := rows\<rparr>))))"

definition add_budget :: "conv \<Rightarrow> clock \<Rightarrow> session \<Rightarrow> body \<Rightarrow> db \<Rightarrow> (error + ack) \<times> db" where
  "add_budget cv clk s b d =
     (case check_session s of
        Some e \<Rightarrow> (Inl e, d)
      | None \<Rightarrow>
          (let category = json_get b ''category'';
               amount = json_get b ''amount'';
               current_month = month_of (local_now clk)
           in case upsert_budget cv clk (user_id s) category amount current_month (budgets d) of
                Inl x \<Rightarrow> (Inl InternalServerError, d)
              | Inr rows \<Rightarrow> (Inr Success, d\<lparr>budgets := rows\<rparr>)))"

definition delete_budget :: "conv \<Rightarrow> clock \<Rightarrow> session \<Rightarrow> body \<Rightarrow> db \<Rightarrow> (error + ack) \<times> db" where
  "delete_budget cv clk s b d =
     (case check_session s of
        Some e \<Rightarrow> (Inl e, d)
      | None \<Rightarrow>
          (let category = json_get b ''category'';
               current_month = month_of (local_now clk)
           in case delete_budget_rows cv (user_id s) category current_month (budgets d) of
                Inl x \<Rightarrow> (Inl InternalServerError, d)
              | Inr rows \<Rightarrow> (Inr Success, d\<lparr>budgets := rows\<rparr>)))"

text \<open>
  The expense is committed before \<^verbatim>\<open>check_overspending\<close> runs: an exception in the
  check leaves the expense in the store.
\<close>

definition add_expense :: "conv \<Rightarrow> clock \<Rightarrow> session \<Rightarrow> body \<Rightarrow> db \<Rightarrow> (error + ack) \<times> db" where
  "add_expense cv clk s b d =
     (case check_session s of
        Some e \<Rightarrow> (Inl e, d)
      | None \<Rightarrow>
          (let category = json_get b ''category'';
               amount = json_get b ''amount'';
               description = json_get_default b ''description'' (JStr [])
           in case insert_expense cv clk (user_id s) category amount description (expenses d) of
                Inl x \<Rightarrow> (Inl InternalServerError, d)
              | Inr rows \<Rightarrow>
                  (let d' = d\<lparr>expenses := rows\<rparr> in
                   case check_overspending cv clk (user_id s) category d' of
                     None \<Rightarrow> (Inl InternalServerError, d')
                   | Some d'' \<Rightarrow> (Inr Success, d''))))"

text \<open>
  \<^verbatim>\<open>except sqlite3.IntegrityError\<close> answers every constraint violation, NOT NULL
  included, with "A goal with the name ... already exists."
\<close>

definition add_goal :: "conv \<Rightarrow> clock \<Rightarrow> session \<Rightarrow> body \<Rightarrow> db \<Rightarrow> (error + ack) \<times> db" where
  "add_goal cv clk s b d =
     (case check_session s of
        Some e \<Rightarrow> (Inl e, d)
      | None \<Rightarrow>
          (let name = json_get b ''name'';
               target_amount = json_get b ''target'';
               deadline = json_get b ''deadline''
           in case insert_goal cv clk (user_id s) name target_amount deadline (goals d) of
                Inl IntegrityError \<Rightarrow> (Inl (GoalExists name), d)
              | Inl BindingError \<Rightarrow> (Inl InternalServerError, d)
              | Inr rows \<Rightarrow> (Inr Success, d\<lparr>goals := rows\<rparr>)))"

definition delete_goal :: "conv \<Rightarrow> session \<Rightarrow> body \<Rightarrow> db \<Rightarrow> (error + ack) \<times> db" where
  "delete_goal cv s b d =
     (case check_session s of
        Some e \<Rightarrow> (Inl e, d)
      | None \<Rightarrow>
          (let name = json_get b ''name'' in
           case delete_goal_rows cv (user_id s) name (goals d) of
             Inl x \<Rightarrow> (Inl InternalServerError, d)
           | Inr rows \<Rightarrow> (Inr Success, d\<lparr>goals := rows\<rparr>)))"

definition add_saving :: "conv \<Rightarrow> session \<Rightarrow> body \<Rightarrow> db \<Rightarrow> (error + ack) \<times> db" where
  "add_saving cv s b d =
     (case check_session s of
        Some e \<Rightarrow> (Inl e, d)
      | None \<Rightarrow>
          (let goal_name = json_get b ''goal_name'';
               amount = json_get b ''amount''
           in case update_goal_saving cv amount (user_id s) goal_name (goals d) of
                Inl x \<Rightarrow> (Inl InternalServerError, d)
              | Inr rows \<Rightarrow> (Inr Success, d\<lparr>goals := rows\<rparr>)))"

text \<open>
  \<^verbatim>\<open>SELECT message, type, is_read, created_at FROM notifications WHERE user_id = ?
  ORDER BY created_at DESC LIMIT 50\<close>
\<close>

definition get_notifications ::
  "session \<Rightarrow> db \<Rightarrow> error + (message \<times> string \<times> bool \<times> datetime) list" where
  "get_notifications s d =
     (case check_session s of
        Some e \<Rightarrow> Inl e
      | None \<Rightarrow>
          Inr (map notification_view
                 (take 50 (order_desc n_created
                    (filter (\<lambda>r. user_eq (n_user r) (user_id s)) (notifications d))))))"

definition get_trends :: "conv \<Rightarrow> clock \<Rightarrow> session \<Rightarrow> db \<Rightarrow> error + trends" where
  "get_trends cv clk s d =
     (case check_session s of
        Some e \<Rightarrow> Inl e
      | None \<Rightarrow>
          (case generate_trend_analysis cv clk (user_id s) d of
             None \<Rightarrow> Inl InternalServerError
           | Some t \<Rightarrow> Inr t))"

section \<open>Dashboard statistics of the page script\<close>




section \<open>Reachable stores\<close>

text \<open>
  \<^verbatim>\<open>init_db\<close> creates the six tables empty; afterwards the store changes only
  through the seven mutating handlers, called with any session, clock and body.
\<close>

inductive reachable :: "conv \<Rightarrow> db \<Rightarrow> bool" for cv :: conv where
  init: "reachable cv empty_db"
| step_set_income: "reachable cv d \<Longrightarrow> reachable cv (snd (set_income cv clk s b d))"
| step_add_budget: "reachable cv d \<Longrightarrow> reachable cv (snd (add_budget cv clk s b d))"
| step_delete_budget: "reachable cv d \<Longrightarrow> reachable cv (snd (delete_budget cv clk s b d))"
| step_add_expense: "reachable cv d \<Longrightarrow> reachable cv (snd (add_expense cv clk s b d))"
| step_add_goal: "reachable cv d \<Longrightarrow> reachable cv (snd (add_goal cv clk s b d))"
| step_delete_goal: "reachable cv d \<Longrightarrow> reachable cv (snd (delete_goal cv s b d))"
| step_add_saving: "reachable cv d \<Longrightarrow> reachable cv (snd (add_saving cv s b d))"

section \<open>Notions used in the statements\<close>

text \<open>
  What a TEXT or NUMERIC column receives for a Python value: \<open>None\<close> when the value
  cannot be bound, \<open>Some None\<close> for NULL.
\<close>

definition text_param :: "conv \<Rightarrow> json \<Rightarrow> string option option" where
  "text_param cv v = map_option (text_affinity cv) (bind_param v)"

definition numeric_param :: "conv \<Rightarrow> json \<Rightarrow> cell option option" where
  "numeric_param cv v = map_option (numeric_affinity cv) (bind_param v)"

text \<open>The rows of a user under the key of each UNIQUE constraint.\<close>

definition income_for :: "nat \<Rightarrow> month_key \<Rightarrow> db \<Rightarrow> income_row list" where
  "income_for u m d = filter (\<lambda>r. i_user r = Some u \<and> i_month r = m) (income d)"

definition budgets_for :: "nat \<Rightarrow> string \<Rightarrow> month_key \<Rightarrow> db \<Rightarrow> budget_row list" where
  "budgets_for u c m d =
     filter (\<lambda>r. b_user r = Some u \<and> b_category r = c \<and> b_month r = m) (budgets d)"





subsection \<open>Sample data for the worked examples\<close>

definition sample_conv :: conv where
  "sample_conv =
     \<lparr>int_to_text = (\<lambda>i. ''int''), real_to_text = (\<lambda>r. ''real''),
      text_to_num = (\<lambda>t. None), text_prefix_num = (\<lambda>t. 0),
      py_float = (\<lambda>t. None), py_date = (\<lambda>c. None)\<rparr>"

definition sample_clock :: clock where
  "sample_clock = \<lparr>local_now = (2026, 11, 4, 10, 0, 0), utc_now = (2026, 11, 4, 10, 0, 0)\<rparr>"

definition anonymous :: session where
  "anonymous = \<lparr>logged_in = False, user_id = None\<rparr>"

definition alice :: session where
  "alice = \<lparr>logged_in = True, user_id = Some 1\<rparr>"


text \<open>A food budget of 300 followed by food expenses of 120 and 250, and a savings goal.\<close>

definition food_body :: "int \<Rightarrow> body" where
  "food_body n = [''category'' \<mapsto> JStr ''Food'', ''amount'' \<mapsto> JInt n]"





section \<open>Session gate: unauthenticated requests\<close>

text \<open>
  Claim C5. Each of the ten data handlers, called with a session that is not logged in,
  answers \<open>NotAuthorized\<close> and leaves the store as it found it. The answer is the same
  for every store, clock and body, so nothing read from a table can have entered it.
\<close>

theorem unauthorized_no_side_effect:
  assumes "\<not> logged_in s"
  shows "get_data cv clk s d = Inl NotAuthorized
    \<and> set_income cv clk s b d = (Inl NotAuthorized, d)
    \<and> add_budget cv clk s b d = (Inl NotAuthorized, d)
    \<and> delete_budget cv clk s b d = (Inl NotAuthorized, d)
    \<and> add_expense cv clk s b d = (Inl NotAuthorized, d)
    \<and> add_goal cv clk s b d = (Inl NotAuthorized, d)
    \<and> delete_goal cv s b d = (Inl NotAuthorized, d)
    \<and> add_saving cv s b d = (Inl NotAuthorized, d)
    \<and> get_notifications s d = Inl NotAuthorized
    \<and> get_trends cv clk s d = Inl NotAuthorized"
  using assms
  by (simp add: check_session_def get_data_def set_income_def add_budget_def delete_budget_def
      add_expense_def add_goal_def delete_goal_def add_saving_def get_notifications_def
      get_trends_def)

theorem unauthorized_no_side_effect_witness:
  "\<not> logged_in anonymous
    \<and> get_data sample_conv sample_clock anonymous empty_db = Inl NotAuthorized
    \<and> set_income sample_conv sample_clock anonymous [''amount'' \<mapsto> JInt 5] empty_db
        = (Inl NotAuthorized, empty_db)
    \<and> add_expense sample_conv sample_clock anonymous [''amount'' \<mapsto> JInt 5] empty_db
        = (Inl NotAuthorized, empty_db)
    \<and> get_trends sample_conv sample_clock anonymous empty_db = Inl NotAuthorized"
  using unauthorized_no_side_effect
    [where s = anonymous and cv = sample_conv and clk = sample_clock and d = empty_db
       and b = "[''amount'' \<mapsto> JInt 5]"]
  by (simp add: anonymous_def)

section \<open>Auxiliary facts about the statements and handlers\<close>

subsection \<open>Frames\<close>

lemma check_overspending_frame:
  assumes "check_overspending cv clk uid category d = Some d'"
  shows "income d' = income d \<and> budgets d' = budgets d \<and> expenses d' = expenses d
    \<and> goals d' = goals d"
  using assms
  by (auto simp: check_overspending_def Let_def split: option.splits if_splits)

lemma set_income_frame:
  "budgets (snd (set_income cv clk s b d)) = budgets d
   \<and> expenses (snd (set_income cv clk s b d)) = expenses d
   \<and> goals (snd (set_income cv clk s b d)) = goals d
   \<and> notifications (snd (set_income cv clk s b d)) = notifications d"
  by (simp add: set_income_def Let_def split: option.splits sum.splits)

lemma add_budget_frame:
  "income (snd (add_budget cv clk s b d)) = income d
   \<and> expenses (snd (add_budget cv clk s b d)) = expenses d
   \<and> goals (snd (add_budget cv clk s b d)) = goals d
   \<and> notifications (snd (add_budget cv clk s b d)) = notifications d"
  by (simp add: add_budget_def Let_def split: option.splits sum.splits)

lemma delete_budget_frame:
  "income (snd (delete_budget cv clk s b d)) = income d
   \<and> expenses (snd (delete_budget cv clk s b d)) = expenses d
   \<and> goals (snd (delete_budget cv clk s b d)) = goals d
   \<and> notifications (snd (delete_budget cv clk s b d)) = notifications d"
  by (simp add: delete_budget_def Let_def split: option.splits sum.splits)

lemma add_expense_frame:
  "income (snd (add_expense cv clk s b d)) = income d
   \<and> budgets (snd (add_expense cv clk s b d)) = budgets d
   \<and> goals (snd (add_expense cv clk s b d)) = goals d"
  by (auto simp: add_expense_def Let_def split: option.splits sum.splits
      dest!: check_overspending_frame)

lemma add_goal_frame:
  "income (snd (add_goal cv clk s b d)) = income d
   \<and> budgets (snd (add_goal cv clk s b d)) = budgets d
   \<and> expenses (snd (add_goal cv clk s b d)) = expenses d
   \<and> notifications (snd (add_goal cv clk s b d)) = notifications d"
  by (simp add: add_goal_def Let_def split: option.splits sum.splits exn.splits)

lemma delete_goal_frame:
  "income (snd (delete_goal cv s b d)) = income d
   \<and> budgets (snd (delete_goal cv s b d)) = budgets d
   \<and> expenses (snd (delete_goal cv s b d)) = expenses d
   \<and> notifications (snd (delete_goal cv s b d)) = notifications d"
  by (simp add: delete_goal_def Let_def split: option.splits sum.splits)

lemma add_saving_frame:
  "income (snd (add_saving cv s b d)) = income d
   \<and> budgets (snd (add_saving cv s b d)) = budgets d
   \<and> expenses (snd (add_saving cv s b d)) = expenses d
   \<and> notifications (snd (add_saving cv s b d)) = notifications d"
  by (simp add: add_saving_def Let_def split: option.splits sum.splits)

subsection \<open>Upsert\<close>

lemma filter_map_invariant:
  assumes "\<And>r. P (f r) = P r"
  shows "length (filter P (map f rows)) = length (filter P rows)"
  using assms by (induction rows) simp_all

lemma length_filter_upsert:
  assumes upd: "\<And>r. P (upd r) = P r"
      and new: "P new \<Longrightarrow> \<forall>r \<in> set rows. P r \<longrightarrow> conflicts r"
      and one: "length (filter P rows) \<le> 1"
  shows "length (filter P (upsert conflicts upd new rows)) \<le> 1"
proof (cases "list_ex conflicts rows")
  case True
  have "length (filter P (map (\<lambda>r. if conflicts r then upd r else r) rows))
      = length (filter P rows)"
    by (rule filter_map_invariant) (simp add: upd)
  with True one show ?thesis by (simp add: upsert_def)
next
  case False
  show ?thesis
  proof (cases "P new")
    case True
    with new False have "filter P rows = []"
      by (auto simp: list_ex_iff filter_empty_conv)
    with False show ?thesis by (simp add: upsert_def)
  next
    case False
    with \<open>\<not> list_ex conflicts rows\<close> one show ?thesis by (simp add: upsert_def)
  qed
qed

lemma filter_upsert_key:
  assumes upd: "\<And>r. conflicts (upd r) = conflicts r"
      and new: "conflicts new"
  shows "filter conflicts (upsert conflicts upd new rows)
     = (if list_ex conflicts rows then map upd (filter conflicts rows) else [new])"
proof (cases "list_ex conflicts rows")
  case True
  have "filter conflicts (map (\<lambda>r. if conflicts r then upd r else r) rows)
      = map upd (filter conflicts rows)"
    by (induction rows) (simp_all add: upd)
  with True show ?thesis by (simp add: upsert_def)
next
  case False
  then have "filter conflicts rows = []"
    by (auto simp: list_ex_iff filter_empty_conv)
  with False new show ?thesis by (simp add: upsert_def)
qed

subsection \<open>SQL statements on parameters that can be stored\<close>

lemma upsert_income_ok:
  assumes "numeric_param cv amount = Some (Some a)"
  shows "upsert_income cv clk uid amount m rows =
     Inr (upsert (\<lambda>r. user_eq (i_user r) uid \<and> i_month r = m)
            (\<lambda>r. r\<lparr>i_amount := a, i_created := utc_now clk\<rparr>)
            \<lparr>i_user = uid, i_amount = a, i_month = m, i_created = utc_now clk\<rparr> rows)"
  using assms by (auto simp: upsert_income_def numeric_param_def split: option.splits)

lemma upsert_budget_ok:
  assumes "text_param cv category = Some (Some c)" and "numeric_param cv amount = Some (Some a)"
  shows "upsert_budget cv clk uid category amount m rows =
     Inr (upsert (\<lambda>r. user_eq (b_user r) uid \<and> b_category r = c \<and> b_month r = m)
            (\<lambda>r. r\<lparr>b_amount := a\<rparr>)
            \<lparr>b_user = uid, b_category = c, b_amount = a, b_month = m,
              b_created = utc_now clk\<rparr> rows)"
  using assms
  by (auto simp: upsert_budget_def text_param_def numeric_param_def split: option.splits)


lemma upsert_budget_unique:
  assumes "length (filter (\<lambda>r. b_user r = Some u \<and> b_category r = c \<and> b_month r = m) rows) \<le> 1"
      and "upsert_budget cv clk uid category amount m0 rows = Inr rows'"
  shows "length (filter (\<lambda>r. b_user r = Some u \<and> b_category r = c \<and> b_month r = m) rows') \<le> 1"
proof -
  from assms(2) obtain c0 a where
    rows': "rows' = upsert (\<lambda>r. user_eq (b_user r) uid \<and> b_category r = c0 \<and> b_month r = m0)
            (\<lambda>r. r\<lparr>b_amount := a\<rparr>)
            \<lparr>b_user = uid, b_category = c0, b_amount = a, b_month = m0,
              b_created = utc_now clk\<rparr> rows"
    by (auto simp: upsert_budget_def split: option.splits)
  show ?thesis
    unfolding rows'
    by (rule length_filter_upsert) (use assms(1) in \<open>auto simp: user_eq_def\<close>)
qed

lemma upsert_income_unique:
  assumes "length (filter (\<lambda>r. i_user r = Some u \<and> i_month r = m) rows) \<le> 1"
      and "upsert_income cv clk uid amount m0 rows = Inr rows'"
  shows "length (filter (\<lambda>r. i_user r = Some u \<and> i_month r = m) rows') \<le> 1"
proof -
  from assms(2) obtain a where
    rows': "rows' = upsert (\<lambda>r. user_eq (i_user r) uid \<and> i_month r = m0)
            (\<lambda>r. r\<lparr>i_amount := a, i_created := utc_now clk\<rparr>)
            \<lparr>i_user = uid, i_amount = a, i_month = m0, i_created = utc_now clk\<rparr> rows"
    by (auto simp: upsert_income_def split: option.splits)
  show ?thesis
    unfolding rows'
    by (rule length_filter_upsert) (use assms(1) in \<open>auto simp: user_eq_def\<close>)
qed

lemma length_filter_conj_le:
  "length (filter (\<lambda>r. Q r \<and> P r) rows) \<le> length (filter P rows)"
  by (induction rows) auto



subsection \<open>The handlers keep the keys unique\<close>

lemma set_income_unique:
  assumes "length (income_for u m d) \<le> 1"
  shows "length (income_for u m (snd (set_income cv clk s b d))) \<le> 1"
proof (cases "upsert_income cv clk (user_id s) (json_get b ''amount'')
                (month_of (local_now clk)) (income d)")
  case (Inl x)
  with assms show ?thesis
    by (simp add: set_income_def Let_def income_for_def split: option.splits)
next
  case (Inr rows')
  from upsert_income_unique [OF assms [unfolded income_for_def] Inr]
  have "length (filter (\<lambda>r. i_user r = Some u \<and> i_month r = m) rows') \<le> 1" .
  with assms Inr show ?thesis
    by (simp add: set_income_def Let_def income_for_def split: option.splits)
qed

lemma add_budget_unique:
  assumes "length (budgets_for u c m d) \<le> 1"
  shows "length (budgets_for u c m (snd (add_budget cv clk s b d))) \<le> 1"
proof (cases "upsert_budget cv clk (user_id s) (json_get b ''category'') (json_get b ''amount'')
                (month_of (local_now clk)) (budgets d)")
  case (Inl x)
  with assms show ?thesis
    by (simp add: add_budget_def Let_def budgets_for_def split: option.splits)
next
  case (Inr rows')
  from upsert_budget_unique [OF assms [unfolded budgets_for_def] Inr]
  have "length (filter (\<lambda>r. b_user r = Some u \<and> b_category r = c \<and> b_month r = m) rows') \<le> 1" .
  with assms Inr show ?thesis
    by (simp add: add_budget_def Let_def budgets_for_def split: option.splits)
qed

lemma delete_budget_unique:
  assumes "length (budgets_for u c m d) \<le> 1"
  shows "length (budgets_for u c m (snd (delete_budget cv clk s b d))) \<le> 1"
proof -
  have "length (budgets_for u c m (snd (delete_budget cv clk s b d)))
      \<le> length (budgets_for u c m d)"
    by (simp add: delete_budget_def delete_budget_rows_def Let_def budgets_for_def
        length_filter_conj_le split: option.splits)
  with assms show ?thesis by simp
qed




subsection \<open>Invariants of reachable stores\<close>

lemma reachable_income_unique:
  assumes "reachable cv d"
  shows "length (income_for u m d) \<le> 1"
  using assms
proof (induction rule: reachable.induct)
  case init
  show ?case by (simp add: income_for_def empty_db_def)
next
  case (step_set_income d clk s b)
  then show ?case by (simp only: set_income_unique)
qed (simp_all add: income_for_def add_budget_frame delete_budget_frame add_expense_frame
      add_goal_frame delete_goal_frame add_saving_frame)

lemma reachable_budgets_unique:
  assumes "reachable cv d"
  shows "length (budgets_for u c m d) \<le> 1"
  using assms
proof (induction rule: reachable.induct)
  case init
  show ?case by (simp add: budgets_for_def empty_db_def)
next
  case (step_add_budget d clk s b)
  then show ?case by (simp only: add_budget_unique)
next
  case (step_delete_budget d clk s b)
  then show ?case by (simp only: delete_budget_unique)
qed (simp_all add: budgets_for_def set_income_frame add_expense_frame
      add_goal_frame delete_goal_frame add_saving_frame)


section \<open>Dashboard statistics\<close>








section \<open>Parameters that can be stored\<close>




lemma py_number_numeric_param:
  assumes "py_number v = Some a"
  shows "numeric_param cv v = Some (Some (Num a))"
  using assms by (cases v) (auto simp: numeric_param_def)


section \<open>Income\<close>

lemma set_income_rejects:
  assumes "logged_in s"
      and "case json_get b ''amount'' of
             JBool x \<Rightarrow> False | JInt i \<Rightarrow> i < 0 | JFloat r \<Rightarrow> r < 0 | _ \<Rightarrow> True"
  shows "set_income cv clk s b d = (Inl InvalidAmount, d)"
  using assms
  by (cases "json_get b ''amount''") (simp_all add: set_income_def check_session_def)

lemma set_income_stored:
  assumes "logged_in s" and "py_number (json_get b ''amount'') = Some a" and "0 \<le> a"
  shows "set_income cv clk s b d =
     (Inr Success,
      d\<lparr>income :=
          upsert (\<lambda>r. user_eq (i_user r) (user_id s) \<and> i_month r = month_of (local_now clk))
            (\<lambda>r. r\<lparr>i_amount := Num a, i_created := utc_now clk\<rparr>)
            \<lparr>i_user = user_id s, i_amount = Num a, i_month = month_of (local_now clk),
              i_created = utc_now clk\<rparr>
            (income d)\<rparr>)"
  using assms
  by (simp add: set_income_def check_session_def Let_def
      upsert_income_ok [OF py_number_numeric_param])

lemma income_for_upsert:
  assumes "length (income_for u m d) \<le> 1"
  shows "map (\<lambda>r. (i_amount r, i_created r)) (income_for u m
     (d\<lparr>income :=
          upsert (\<lambda>r. user_eq (i_user r) (Some u) \<and> i_month r = m)
            (\<lambda>r. r\<lparr>i_amount := a, i_created := t\<rparr>)
            \<lparr>i_user = Some u, i_amount = a, i_month = m, i_created = t\<rparr>
            (income d)\<rparr>)) = [(a, t)]"
proof -
  let ?K = "\<lambda>r. user_eq (i_user r) (Some u) \<and> i_month r = m"
  have K: "(\<lambda>r. i_user r = Some u \<and> i_month r = m) = ?K"
    by (auto simp: user_eq_def)
  have "filter ?K (upsert ?K (\<lambda>r. r\<lparr>i_amount := a, i_created := t\<rparr>)
            \<lparr>i_user = Some u, i_amount = a, i_month = m, i_created = t\<rparr> (income d))
      = (if list_ex ?K (income d)
         then map (\<lambda>r. r\<lparr>i_amount := a, i_created := t\<rparr>) (filter ?K (income d))
         else [\<lparr>i_user = Some u, i_amount = a, i_month = m, i_created = t\<rparr>])"
    by (rule filter_upsert_key) (simp_all add: user_eq_def)
  moreover have "list_ex ?K (income d) \<Longrightarrow> \<exists>r. filter ?K (income d) = [r]"
  proof -
    assume "list_ex ?K (income d)"
    then have "filter ?K (income d) \<noteq> []"
      by (auto simp: list_ex_iff filter_empty_conv)
    moreover from assms have "length (filter ?K (income d)) \<le> 1"
      by (simp add: income_for_def K)
    ultimately show ?thesis
      by (cases "filter ?K (income d)") (auto simp: Suc_le_eq)
  qed
  ultimately show ?thesis
    by (auto simp: income_for_def K)
qed

text \<open>
  For JSON numbers: a second valid amount in the same month replaces the first, with a
  fresh timestamp, and one income row remains for that user and month.
\<close>

lemma set_income_twice:
  assumes "reachable cv d" and "logged_in s" and "user_id s = Some u"
      and "month_of (local_now clk1) = m" and "month_of (local_now clk2) = m"
      and "py_number (json_get b1 ''amount'') = Some a1" and "0 \<le> a1"
      and "py_number (json_get b2 ''amount'') = Some a2" and "0 \<le> a2"
  shows "map (\<lambda>r. (i_amount r, i_created r))
           (income_for u m (snd (set_income cv clk2 s b2 (snd (set_income cv clk1 s b1 d)))))
         = [(Num a2, utc_now clk2)]"
proof -
  let ?d1 = "snd (set_income cv clk1 s b1 d)"
  have "reachable cv ?d1" using assms(1) by (rule reachable.step_set_income)
  then have "length (income_for u m ?d1) \<le> 1" by (rule reachable_income_unique)
  from income_for_upsert [OF this, where a = "Num a2" and t = "utc_now clk2"]
    set_income_stored [OF assms(2) assms(8) assms(9), of cv clk2 ?d1]
  show ?thesis by (simp add: assms(3) assms(5))
qed

text \<open>
  Claim C3, the failing input. The claim asks for a validation error whenever the
  submitted amount is not a number. \<^verbatim>\<open>isinstance(True, (int, float))\<close> holds in
  Python, so the JSON value \<^verbatim>\<open>true\<close> passes the check and is stored as income 1.
\<close>

theorem set_income_accepts_boolean:
  "set_income sample_conv sample_clock alice [''amount'' \<mapsto> JBool True] empty_db
     = (Inr Success,
        empty_db\<lparr>income := [\<lparr>i_user = Some 1, i_amount = Num 1, i_month = (2026, 11),
                               i_created = (2026, 11, 4, 10, 0, 0)\<rparr>]\<rparr>)"
  by (simp add: set_income_def check_session_def alice_def json_get_def upsert_income_def
      upsert_def empty_db_def sample_clock_def Let_def)

section \<open>Budgets\<close>

lemma add_budget_stored:
  assumes "logged_in s"
      and "text_param cv (json_get b ''category'') = Some (Some c)"
      and "numeric_param cv (json_get b ''amount'') = Some (Some a)"
  shows "add_budget cv clk s b d =
     (Inr Success,
      d\<lparr>budgets :=
          upsert (\<lambda>r. user_eq (b_user r) (user_id s) \<and> b_category r = c
                       \<and> b_month r = month_of (local_now clk))
            (\<lambda>r. r\<lparr>b_amount := a\<rparr>)
            \<lparr>b_user = user_id s, b_category = c, b_amount = a,
              b_month = month_of (local_now clk), b_created = utc_now clk\<rparr>
            (budgets d)\<rparr>)"
  using assms
  by (simp add: add_budget_def check_session_def Let_def upsert_budget_ok)


lemma budgets_for_upsert:
  assumes "length (budgets_for u c m d) \<le> 1"
  shows "map b_amount (budgets_for u c m
     (d\<lparr>budgets :=
          upsert (\<lambda>r. user_eq (b_user r) (Some u) \<and> b_category r = c \<and> b_month r = m)
            (\<lambda>r. r\<lparr>b_amount := a\<rparr>)
            \<lparr>b_user = Some u, b_category = c, b_amount = a, b_month = m, b_created = t\<rparr>
            (budgets d)\<rparr>)) = [a]"
proof -
  let ?K = "\<lambda>r. user_eq (b_user r) (Some u) \<and> b_category r = c \<and> b_month r = m"
  have K: "(\<lambda>r. b_user r = Some u \<and> b_category r = c \<and> b_month r = m) = ?K"
    by (auto simp: user_eq_def)
  have "filter ?K (upsert ?K (\<lambda>r. r\<lparr>b_amount := a\<rparr>)
            \<lparr>b_user = Some u, b_category = c, b_amount = a, b_month = m, b_created = t\<rparr>
            (budgets d))
      = (if list_ex ?K (budgets d) then map (\<lambda>r. r\<lparr>b_amount := a\<rparr>) (filter ?K (budgets d))
         else [\<lparr>b_user = Some u, b_category = c, b_amount = a, b_month = m, b_created = t\<rparr>])"
    by (rule filter_upsert_key) (simp_all add: user_eq_def)
  moreover have "list_ex ?K (budgets d) \<Longrightarrow> \<exists>r. filter ?K (budgets d) = [r]"
  proof -
    assume "list_ex ?K (budgets d)"
    then have "filter ?K (budgets d) \<noteq> []"
      by (auto simp: list_ex_iff filter_empty_conv)
    moreover from assms have "length (filter ?K (budgets d)) \<le> 1"
      by (simp add: budgets_for_def K)
    ultimately show ?thesis
      by (cases "filter ?K (budgets d)") (auto simp: Suc_le_eq)
  qed
  ultimately show ?thesis
    by (auto simp: budgets_for_def K)
qed

lemma budget_matches_unique:
  assumes "reachable cv d"
  shows "length (filter (budget_matches uid c m) (budgets d)) \<le> 1"
proof (cases "\<exists>u c'. uid = Some u \<and> c = Some c'")
  case True
  then obtain u c' where uc: "uid = Some u" "c = Some c'" by blast
  have "budget_matches uid c m = (\<lambda>r. b_user r = Some u \<and> b_category r = c' \<and> b_month r = m)"
    by (auto simp: budget_matches_def user_eq_def uc)
  with reachable_budgets_unique [OF assms, of u c' m] show ?thesis
    by (simp add: budgets_for_def)
next
  case False
  then have "filter (budget_matches uid c m) (budgets d) = []"
    by (auto simp: budget_matches_def user_eq_def filter_empty_conv)
  then show ?thesis by simp
qed

text \<open>
  Claim C4. A reachable store holds at most one budget row for each user, category and
  month. When a logged-in user upserts a budget for the same category twice in the same
  month, both requests succeed and exactly one row for that user, category and month
  remains, holding the second amount.
\<close>

theorem budget_row_unique:
  assumes "reachable cv d"
  shows "(\<forall>u' c' m'. length (budgets_for u' c' m' d) \<le> 1)
    \<and> (logged_in s \<and> user_id s = Some u
        \<and> month_of (local_now clk1) = m \<and> month_of (local_now clk2) = m
        \<and> text_param cv (json_get b1 ''category'') = Some (Some c)
        \<and> text_param cv (json_get b2 ''category'') = Some (Some c)
        \<and> numeric_param cv (json_get b1 ''amount'') = Some (Some a1)
        \<and> numeric_param cv (json_get b2 ''amount'') = Some (Some a2)
       \<longrightarrow> fst (add_budget cv clk1 s b1 d) = Inr Success
         \<and> fst (add_budget cv clk2 s b2 (snd (add_budget cv clk1 s b1 d))) = Inr Success
         \<and> map b_amount (budgets_for u c m
              (snd (add_budget cv clk2 s b2 (snd (add_budget cv clk1 s b1 d))))) = [a2])"
proof -
  let ?d1 = "snd (add_budget cv clk1 s b1 d)"
  have inv: "\<forall>u' c' m'. length (budgets_for u' c' m' d) \<le> 1"
    using reachable_budgets_unique [OF assms] by blast
  have "reachable cv ?d1" using assms by (rule reachable.step_add_budget)
  then have one: "length (budgets_for u c m ?d1) \<le> 1" by (rule reachable_budgets_unique)
  have twice: "fst (add_budget cv clk1 s b1 d) = Inr Success
         \<and> fst (add_budget cv clk2 s b2 ?d1) = Inr Success
         \<and> map b_amount (budgets_for u c m (snd (add_budget cv clk2 s b2 ?d1))) = [a2]"
    if l: "logged_in s" and u: "user_id s = Some u"
      and m1: "month_of (local_now clk1) = m" and m2: "month_of (local_now clk2) = m"
      and c1: "text_param cv (json_get b1 ''category'') = Some (Some c)"
      and c2: "text_param cv (json_get b2 ''category'') = Some (Some c)"
      and a1: "numeric_param cv (json_get b1 ''amount'') = Some (Some a1)"
      and a2: "numeric_param cv (json_get b2 ''amount'') = Some (Some a2)"
    using add_budget_stored [OF l c1 a1, of clk1 d] add_budget_stored [OF l c2 a2, of clk2 ?d1]
      budgets_for_upsert [OF one, where a = a2 and t = "utc_now clk2"]
    by (simp add: u m2)
  from inv twice show ?thesis by blast
qed

theorem budget_row_unique_witness:
  "reachable sample_conv empty_db
   \<and> fst (add_budget sample_conv sample_clock alice (food_body 450)
        (snd (add_budget sample_conv sample_clock alice (food_body 300) empty_db)))
       = Inr Success
   \<and> map b_amount (budgets_for 1 ''Food'' (2026, 11)
        (snd (add_budget sample_conv sample_clock alice (food_body 450)
           (snd (add_budget sample_conv sample_clock alice (food_body 300) empty_db)))))
       = [Num 450]"
proof -
  have r: "reachable sample_conv empty_db" by (rule reachable.init)
  have h: "logged_in alice \<and> user_id alice = Some 1
        \<and> month_of (local_now sample_clock) = (2026, 11)
        \<and> month_of (local_now sample_clock) = (2026, 11)
        \<and> text_param sample_conv (json_get (food_body 300) ''category'') = Some (Some ''Food'')
        \<and> text_param sample_conv (json_get (food_body 450) ''category'') = Some (Some ''Food'')
        \<and> numeric_param sample_conv (json_get (food_body 300) ''amount'') = Some (Some (Num 300))
        \<and> numeric_param sample_conv (json_get (food_body 450) ''amount'') = Some (Some (Num 450))"
    by (simp add: alice_def sample_clock_def text_param_def numeric_param_def json_get_def
        food_body_def)
  from budget_row_unique [OF r, THEN conjunct2, rule_format, OF h] r
  show ?thesis by simp
qed




lemma delete_budget_unbound:
  assumes "logged_in s" and "bind_param (json_get b ''category'') = None"
  shows "delete_budget cv clk s b d = (Inl InternalServerError, d)"
  using assms
  by (simp add: delete_budget_def delete_budget_rows_def check_session_def Let_def)

text \<open>
  Claim C6. For a logged-in user and a category value that can be bound, deleting a
  budget answers success, removes exactly the rows of that user, category and current
  month, of which a reachable store has at most one, keeps every other budget row and
  leaves the other tables as they were. When no such row exists the store is unchanged.
\<close>

theorem delete_budget_frame_effect:
  assumes "reachable cv d" and "logged_in s"
      and "text_param cv (json_get b ''category'') = Some c"
  shows "fst (delete_budget cv clk s b d) = Inr Success
    \<and> budgets (snd (delete_budget cv clk s b d))
        = filter (\<lambda>r. \<not> budget_matches (user_id s) c (month_of (local_now clk)) r) (budgets d)
    \<and> length (filter (budget_matches (user_id s) c (month_of (local_now clk))) (budgets d)) \<le> 1
    \<and> (\<forall>r \<in> set (budgets d).
          b_month r \<noteq> month_of (local_now clk) \<or> Some (b_category r) \<noteq> c
            \<or> b_user r \<noteq> user_id s
          \<longrightarrow> r \<in> set (budgets (snd (delete_budget cv clk s b d))))
    \<and> income (snd (delete_budget cv clk s b d)) = income d
    \<and> expenses (snd (delete_budget cv clk s b d)) = expenses d
    \<and> goals (snd (delete_budget cv clk s b d)) = goals d
    \<and> notifications (snd (delete_budget cv clk s b d)) = notifications d
    \<and> (\<not> list_ex (budget_matches (user_id s) c (month_of (local_now clk))) (budgets d)
        \<longrightarrow> delete_budget cv clk s b d = (Inr Success, d))"
proof -
  let ?P = "budget_matches (user_id s) c (month_of (local_now clk))"
  from assms(3) obtain cb where cb: "bind_param (json_get b ''category'') = Some cb"
    and c: "text_affinity cv cb = c"
    by (auto simp: text_param_def)
  have eq: "delete_budget cv clk s b d
      = (Inr Success, d\<lparr>budgets := filter (\<lambda>r. \<not> ?P r) (budgets d)\<rparr>)"
    using assms(2) cb c
    by (simp add: delete_budget_def delete_budget_rows_def check_session_def Let_def)
  have none: "delete_budget cv clk s b d = (Inr Success, d)" if "\<not> list_ex ?P (budgets d)"
  proof -
    from that have "filter (\<lambda>r. \<not> ?P r) (budgets d) = budgets d"
      by (simp add: list_ex_iff filter_id_conv)
    then show ?thesis by (simp add: eq)
  qed
  have kept: "\<forall>r \<in> set (budgets d).
          b_month r \<noteq> month_of (local_now clk) \<or> Some (b_category r) \<noteq> c
            \<or> b_user r \<noteq> user_id s
          \<longrightarrow> r \<in> set (budgets (snd (delete_budget cv clk s b d)))"
    by (auto simp: eq budget_matches_def user_eq_def)
  from eq none kept budget_matches_unique [OF assms(1)] show ?thesis
    by simp
qed

theorem delete_budget_frame_effect_witness:
  "reachable sample_conv
     (snd (add_budget sample_conv sample_clock alice
        [''category'' \<mapsto> JStr ''Food'', ''amount'' \<mapsto> JInt 300] empty_db))
   \<and> logged_in alice
   \<and> text_param sample_conv (json_get [''category'' \<mapsto> JStr ''Food''] ''category'')
       = Some (Some ''Food'')
   \<and> budgets (snd (add_budget sample_conv sample_clock alice
        [''category'' \<mapsto> JStr ''Food'', ''amount'' \<mapsto> JInt 300] empty_db))
       = [\<lparr>b_user = Some 1, b_category = ''Food'', b_amount = Num 300, b_month = (2026, 11),
           b_created = (2026, 11, 4, 10, 0, 0)\<rparr>]
   \<and> fst (delete_budget sample_conv sample_clock alice [''category'' \<mapsto> JStr ''Food'']
        (snd (add_budget sample_conv sample_clock alice
           [''category'' \<mapsto> JStr ''Food'', ''amount'' \<mapsto> JInt 300] empty_db))) = Inr Success
   \<and> budgets (snd (delete_budget sample_conv sample_clock alice [''category'' \<mapsto> JStr ''Food'']
        (snd (add_budget sample_conv sample_clock alice
           [''category'' \<mapsto> JStr ''Food'', ''amount'' \<mapsto> JInt 300] empty_db)))) = []"
proof -
  let ?d = "snd (add_budget sample_conv sample_clock alice
        [''category'' \<mapsto> JStr ''Food'', ''amount'' \<mapsto> JInt 300] empty_db)"
  have r: "reachable sample_conv ?d"
    by (rule reachable.step_add_budget) (rule reachable.init)
  have l: "logged_in alice" by (simp add: alice_def)
  have c: "text_param sample_conv (json_get [''category'' \<mapsto> JStr ''Food''] ''category'')
       = Some (Some ''Food'')"
    by (simp add: text_param_def json_get_def)
  have d: "budgets ?d
       = [\<lparr>b_user = Some 1, b_category = ''Food'', b_amount = Num 300, b_month = (2026, 11),
           b_created = (2026, 11, 4, 10, 0, 0)\<rparr>]"
    by (simp add: add_budget_def check_session_def alice_def json_get_def upsert_budget_def
        upsert_def empty_db_def sample_clock_def Let_def)
  from delete_budget_frame_effect [OF r l c, of sample_clock] r l c d
  show ?thesis
    by (simp add: budget_matches_def user_eq_def alice_def sample_clock_def)
qed

section \<open>Goals and savings\<close>







section \<open>Trend analysis\<close>




































section \<open>Savings\<close>

lemma add_saving_unbound:
  assumes "logged_in s"
      and "bind_param (json_get b ''goal_name'') = None \<or> bind_param (json_get b ''amount'') = None"
  shows "add_saving cv s b d = (Inl InternalServerError, d)"
  using assms
  by (auto simp: add_saving_def update_goal_saving_def check_session_def Let_def
      split: option.splits)





section \<open>Expenses and overspend alerts\<close>







text \<open>
  When no stored expense is dated after the current month, the sum the overspend check
  computes is the sum over the expenses of the current month.
\<close>

lemma month_start_le:
  fixes now ts :: datetime
  assumes "month_of ts \<le> month_of now" and "1 \<le> day_of ts"
  shows "(month_start now \<le> ts) = (month_of ts = month_of now)"
  using assms by (cases now; cases ts) (auto simp: less_eq_prod_simp)

lemma total_spent_current_month:
  assumes "\<forall>e \<in> set rows. month_of (e_timestamp e) \<le> month_of now \<and> 1 \<le> day_of (e_timestamp e)"
  shows "total_spent cv uid c (month_start now) rows =
     sum_list (map (\<lambda>e. cell_num cv (e_amount e))
       (filter (\<lambda>e. user_eq (e_user e) uid \<and> c = Some (e_category e)
                     \<and> month_of (e_timestamp e) = month_of now) rows))"
proof -
  have "filter (\<lambda>e. user_eq (e_user e) uid \<and> c = Some (e_category e)
                     \<and> month_start now \<le> e_timestamp e) rows
      = filter (\<lambda>e. user_eq (e_user e) uid \<and> c = Some (e_category e)
                     \<and> month_of (e_timestamp e) = month_of now) rows"
    by (rule filter_cong [OF refl]) (use assms month_start_le in auto)
  then show ?thesis by (simp add: total_spent_def)
qed



end
